theory Spec2Isabelle
  imports Main "HOL-Library.Word" "HOL-Library.State_Monad"
begin

section \<open>goog.i18n.BidiFormatter (closure/goog/i18n/bidiformatter.js)\<close>

text \<open>
  A shallow embedding of the BiDi formatter. Closure marks private members with a
  trailing underscore, which is not a legal name here: \<open>contextDir_\<close> is written
  \<open>contextDir_priv\<close>, \<open>dirResetIfNeeded_\<close> is written
  \<open>dirResetIfNeeded_priv\<close>, and so on.
\<close>

subsection \<open>JavaScript values\<close>

text \<open>A JavaScript string is a sequence of UTF-16 code units.\<close>

type_synonym jsstring = "16 word list"

text \<open>An ASCII string literal of the source, as code units.\<close>

definition ascii :: "string \<Rightarrow> jsstring" where
  "ascii s = map of_char s"

text \<open>
  An optional boolean argument (\<open>@param {boolean=}\<close>): the argument may be omitted
  (\<open>undefined\<close>), and the wrap methods also provide for \<open>null\<close>.
\<close>

datatype optbool = Undefined | Null | Bool bool

text \<open>Truthiness, as in \<open>if (x)\<close>, \<open>x || y\<close> and \<open>!!x\<close>.\<close>

fun truthy :: "optbool \<Rightarrow> bool" where
  "truthy Undefined = False"
| "truthy Null = False"
| "truthy (Bool b) = b"

text \<open>The loose comparison \<open>x == undefined\<close>: true of \<open>undefined\<close> and \<open>null\<close> only.\<close>

fun eq_undefined :: "optbool \<Rightarrow> bool" where
  "eq_undefined Undefined = True"
| "eq_undefined Null = True"
| "eq_undefined (Bool b) = False"

text \<open>\<open>opt_dirReset || (opt_dirReset == undefined)\<close>, lines 352 and 465.\<close>

definition default_true :: "optbool \<Rightarrow> optbool" where
  "default_true opt_dirReset =
     (if truthy opt_dirReset then opt_dirReset else Bool (eq_undefined opt_dirReset))"

subsection \<open>The namespace goog.i18n.bidi\<close>

text \<open>
  Modelled from the spec: the enum \<open>goog.i18n.bidi.Dir\<close> is declared in bidi.js, which
  is not among the sources. The spec gives it as the closed enumeration LTR, RTL, NEUTRAL
  with the numeric convention LTR > 0, RTL < 0, NEUTRAL = 0, here 1, -1 and 0: the
  formatter uses the sign only.
  A nullable direction (\<open>?goog.i18n.bidi.Dir\<close>) is a \<open>Dir option\<close>, \<open>None\<close> being
  \<open>null\<close>, the unknown direction.
\<close>

datatype Dir = LTR | RTL | NEUTRAL

fun Dir_value :: "Dir \<Rightarrow> int" where
  "Dir_value LTR = 1"
| "Dir_value RTL = - 1"
| "Dir_value NEUTRAL = 0"

text \<open>\<open>Number(dir)\<close> of a nullable direction: \<open>Number(null)\<close> is 0.\<close>

fun Number :: "Dir option \<Rightarrow> int" where
  "Number None = 0"
| "Number (Some d) = Dir_value d"

text \<open>
  Modelled from the spec: the constants of \<open>goog.i18n.bidi.Format\<close> (bidi.js, not among
  the sources). The spec's glossary names them: the directional marks LRM and RLM, the
  embedding characters LRE and RLE, and PDF, which closes an embedding. They are the
  Unicode characters U+202A, U+202B, U+202C, U+200E and U+200F, one code unit each.
\<close>

definition LRE :: jsstring where "LRE = [0x202A]"
definition RLE :: jsstring where "RLE = [0x202B]"
definition PDF :: jsstring where "PDF = [0x202C]"
definition LRM :: jsstring where "LRM = [0x200E]"
definition RLM :: jsstring where "RLM = [0x200F]"

text \<open>
  Modelled from the spec: \<open>goog.i18n.bidi.LEFT\<close> and \<open>goog.i18n.bidi.RIGHT\<close> (bidi.js),
  the edge names "left" and "right" of the spec's edge-naming operations.
\<close>

definition LEFT :: jsstring where "LEFT = ascii ''left''"
definition RIGHT :: jsstring where "RIGHT = ascii ''right''"

text \<open>
  The context direction as a caller gives it
  (\<open>@param {goog.i18n.bidi.Dir|number|boolean|null} contextDir\<close>): a number (which
  includes the \<open>Dir\<close> constants), a boolean, or \<open>null\<close>.
\<close>

datatype DirInput = DirNumber int | DirBoolean bool | DirNull

text \<open>
  Modelled from the spec: \<open>goog.i18n.bidi.toDir(givenDir, opt_noNeutral)\<close> (bidi.js, not
  among the sources), from the constructor's parameter documentation (lines 63-69) and
  the spec's normalisation rule: a number is LTR when positive and RTL when negative;
  0, which is also NEUTRAL, is unknown when \<open>opt_noNeutral\<close> is set and NEUTRAL otherwise;
  a boolean is RTL when true and LTR when false; \<open>null\<close> is unknown.
\<close>

fun toDir :: "DirInput \<Rightarrow> bool \<Rightarrow> Dir option" where
  "toDir (DirNumber n) opt_noNeutral =
     (if n > 0 then Some LTR
      else if n < 0 then Some RTL
      else if opt_noNeutral then None else Some NEUTRAL)"
| "toDir DirNull opt_noNeutral = None"
| "toDir (DirBoolean b) opt_noNeutral = (if b then Some RTL else Some LTR)"

text \<open>
  The direction estimator (\<open>goog.i18n.bidi.estimateDirection\<close>, \<open>endsWithRtl\<close>,
  \<open>endsWithLtr\<close>) is an external collaborator of the formatter: bidi.js is not among the
  sources and the spec leaves its character tables open. The formatter is verified for
  every estimator; it is a parameter of the model.
\<close>

record bidi =
  estimateDirection :: "jsstring \<Rightarrow> optbool \<Rightarrow> Dir"
  endsWithRtl :: "jsstring \<Rightarrow> optbool \<Rightarrow> bool"
  endsWithLtr :: "jsstring \<Rightarrow> optbool \<Rightarrow> bool"

text \<open>
  A stand-in estimator for tests, which answers the same for every text: \<open>d\<close> for the
  overall direction, \<open>r\<close> and \<open>l\<close> for whether the text ends with RTL or with LTR.
\<close>

definition constBidi :: "Dir \<Rightarrow> bool \<Rightarrow> bool \<Rightarrow> bidi" where
  "constBidi d r l =
     \<lparr> estimateDirection = (\<lambda>str opt_isHtml. d),
       endsWithRtl = (\<lambda>str opt_isHtml. r),
       endsWithLtr = (\<lambda>str opt_isHtml. l) \<rparr>"

subsection \<open>The markup value goog.html.SafeHtml\<close>

text \<open>
  \<open>goog.html.SafeHtml\<close> is opaque to the formatter, which uses three of its operations:
  \<open>unwrap(html)\<close>, the text of a value; \<open>create(tagName, attributes, content)\<close>, here
  always with the tag \<open>span\<close> and the one attribute \<open>dir\<close>, whose value is a string or
  \<open>undefined\<close> (\<open>None\<close>); and \<open>concat(html, string)\<close>, written \<open>concat_html\<close>.
  They are a parameter of the model, over any type \<open>'h\<close> of markup values.
\<close>

record 'h SafeHtml =
  unwrap :: "'h \<Rightarrow> jsstring"
  create :: "jsstring \<Rightarrow> (jsstring \<times> jsstring option) list \<Rightarrow> 'h \<Rightarrow> 'h"
  concat_html :: "'h \<Rightarrow> jsstring \<Rightarrow> 'h"

text \<open>
  A stand-in for tests: a markup value is its own HTML text, a container is written
  around it, and concatenation is concatenation of text (the formatter concatenates a
  mark or the empty string only, which have nothing to escape).
\<close>

fun attrs_text :: "(jsstring \<times> jsstring option) list \<Rightarrow> jsstring" where
  "attrs_text [] = []"
| "attrs_text ((k, None) # as) = attrs_text as"
| "attrs_text ((k, Some v) # as) =
     ascii '' '' @ k @ ascii ''=\"'' @ v @ ascii ''\"'' @ attrs_text as"

definition textHtml :: "jsstring SafeHtml" where
  "textHtml =
     \<lparr> unwrap = (\<lambda>h. h),
       create = (\<lambda>tagName attributes h.
         ascii ''<'' @ tagName @ attrs_text attributes @ ascii ''>'' @ h
           @ ascii ''</'' @ tagName @ ascii ''>''),
       concat_html = (\<lambda>h s. h @ s) \<rparr>"

subsection \<open>The formatter\<close>

text \<open>The two fields of a formatter, lines 85 and 94.\<close>

record BidiFormatter =
  contextDir_priv :: "Dir option"
  alwaysSpan_priv :: bool

text \<open>The constructor, lines 77-95.\<close>

definition BidiFormatter_new :: "DirInput \<Rightarrow> optbool \<Rightarrow> BidiFormatter" where
  "BidiFormatter_new contextDir opt_alwaysSpan =
     \<lparr> contextDir_priv = toDir contextDir True,
       alwaysSpan_priv = truthy opt_alwaysSpan \<rparr>"

definition getContextDir :: "BidiFormatter \<Rightarrow> Dir option" where
  "getContextDir this = contextDir_priv this"

definition getAlwaysSpan :: "BidiFormatter \<Rightarrow> bool" where
  "getAlwaysSpan this = alwaysSpan_priv this"

text \<open>The setters return the formatter as they leave it.\<close>

definition setContextDir :: "BidiFormatter \<Rightarrow> DirInput \<Rightarrow> BidiFormatter" where
  "setContextDir this contextDir = this\<lparr>contextDir_priv := toDir contextDir True\<rparr>"

definition setAlwaysSpan :: "BidiFormatter \<Rightarrow> bool \<Rightarrow> BidiFormatter" where
  "setAlwaysSpan this alwaysSpan = this\<lparr>alwaysSpan_priv := alwaysSpan\<rparr>"

text \<open>\<open>Number(dir1) * Number(dir2) < 0\<close>, line 168.\<close>

definition areDirectionalitiesOpposite_priv :: "Dir option \<Rightarrow> Dir option \<Rightarrow> bool" where
  "areDirectionalitiesOpposite_priv dir1 dir2 \<longleftrightarrow> Number dir1 * Number dir2 < 0"

text \<open>
  Lines 186-202. A direction \<open>dir\<close> compared with the nullable context direction:
  \<open>dir == null\<close> is false of every number, so \<open>this.contextDir_ == Dir.LTR\<close> is
  \<open>contextDir_priv this = Some LTR\<close>.
\<close>

definition dirResetIfNeeded_priv ::
  "bidi \<Rightarrow> BidiFormatter \<Rightarrow> jsstring \<Rightarrow> Dir \<Rightarrow> optbool \<Rightarrow> optbool \<Rightarrow> jsstring" where
  "dirResetIfNeeded_priv B this str dir opt_isHtml opt_dirReset =
     (if truthy opt_dirReset \<and>
         (areDirectionalitiesOpposite_priv (Some dir) (contextDir_priv this) \<or>
          (contextDir_priv this = Some LTR \<and> endsWithRtl B str opt_isHtml) \<or>
          (contextDir_priv this = Some RTL \<and> endsWithLtr B str opt_isHtml))
      then (if contextDir_priv this = Some LTR then LRM else RLM)
      else [])"

text \<open>Lines 234-238.\<close>

definition knownDirAttrValue :: "BidiFormatter \<Rightarrow> Dir \<Rightarrow> jsstring" where
  "knownDirAttrValue this dir =
     (let resolvedDir = (if dir = NEUTRAL then contextDir_priv this else Some dir)
      in if resolvedDir = Some RTL then ascii ''rtl'' else ascii ''ltr'')"

text \<open>Lines 220-223.\<close>

definition dirAttrValue :: "bidi \<Rightarrow> BidiFormatter \<Rightarrow> jsstring \<Rightarrow> optbool \<Rightarrow> jsstring" where
  "dirAttrValue B this str opt_isHtml =
     knownDirAttrValue this (estimateDirection B str opt_isHtml)"

text \<open>Lines 267-275.\<close>

definition knownDirAttr :: "BidiFormatter \<Rightarrow> Dir \<Rightarrow> jsstring" where
  "knownDirAttr this dir =
     (if Some dir \<noteq> contextDir_priv this
      then (if dir = RTL then ascii ''dir=\"rtl\"''
            else if dir = LTR then ascii ''dir=\"ltr\"'' else [])
      else [])"

text \<open>Lines 252-255.\<close>

definition dirAttr :: "bidi \<Rightarrow> BidiFormatter \<Rightarrow> jsstring \<Rightarrow> optbool \<Rightarrow> jsstring" where
  "dirAttr B this str opt_isHtml = knownDirAttr this (estimateDirection B str opt_isHtml)"

text \<open>
  Lines 349-371. \<open>dirCondition\<close> says whether to add the \<open>dir\<close> attribute;
  \<open>dirAttribute\<close> stays \<open>undefined\<close> when it does not hold.
\<close>

definition spanWrapWithKnownDir_priv ::
  "'h SafeHtml \<Rightarrow> bidi \<Rightarrow> BidiFormatter \<Rightarrow> Dir \<Rightarrow> 'h \<Rightarrow> optbool \<Rightarrow> 'h" where
  "spanWrapWithKnownDir_priv H B this dir html opt_dirReset =
     (let opt_dirReset = default_true opt_dirReset;
          dirCondition = (dir \<noteq> NEUTRAL \<and> Some dir \<noteq> contextDir_priv this);
          result =
            (if alwaysSpan_priv this \<or> dirCondition
             then (let dirAttribute =
                         (if dirCondition
                          then Some (if dir = RTL then ascii ''rtl'' else ascii ''ltr'')
                          else None)
                   in create H (ascii ''span'') [(ascii ''dir'', dirAttribute)] html)
             else html);
          str = unwrap H html
      in concat_html H result (dirResetIfNeeded_priv B this str dir (Bool True) opt_dirReset))"

text \<open>Lines 327-334: a \<open>null\<close> direction is estimated from the text of the value.\<close>

definition spanWrapSafeHtmlWithKnownDir ::
  "'h SafeHtml \<Rightarrow> bidi \<Rightarrow> BidiFormatter \<Rightarrow> Dir option \<Rightarrow> 'h \<Rightarrow> optbool \<Rightarrow> 'h" where
  "spanWrapSafeHtmlWithKnownDir H B this dir html opt_dirReset =
     (let dir = (case dir of
                   None \<Rightarrow> estimateDirection B (unwrap H html) (Bool True)
                 | Some d \<Rightarrow> d)
      in spanWrapWithKnownDir_priv H B this dir html opt_dirReset)"

text \<open>Lines 299-303.\<close>

definition spanWrapSafeHtml ::
  "'h SafeHtml \<Rightarrow> bidi \<Rightarrow> BidiFormatter \<Rightarrow> 'h \<Rightarrow> optbool \<Rightarrow> 'h" where
  "spanWrapSafeHtml H B this html opt_dirReset =
     spanWrapSafeHtmlWithKnownDir H B this None html opt_dirReset"

text \<open>
  Lines 462-479. \<open>result\<close> is the array of pieces; \<open>result.join('')\<close> concatenates them.
\<close>

definition unicodeWrapWithKnownDir_priv ::
  "bidi \<Rightarrow> BidiFormatter \<Rightarrow> Dir \<Rightarrow> jsstring \<Rightarrow> optbool \<Rightarrow> optbool \<Rightarrow> jsstring" where
  "unicodeWrapWithKnownDir_priv B this dir str opt_isHtml opt_dirReset =
     (let opt_dirReset = default_true opt_dirReset;
          result =
            (if dir \<noteq> NEUTRAL \<and> Some dir \<noteq> contextDir_priv this
             then [if dir = RTL then RLE else LRE, str, PDF]
             else [str]);
          result = result @ [dirResetIfNeeded_priv B this str dir opt_isHtml opt_dirReset]
      in concat result)"

text \<open>Lines 438-445.\<close>

definition unicodeWrapWithKnownDir ::
  "bidi \<Rightarrow> BidiFormatter \<Rightarrow> Dir option \<Rightarrow> jsstring \<Rightarrow> optbool \<Rightarrow> optbool \<Rightarrow> jsstring" where
  "unicodeWrapWithKnownDir B this dir str opt_isHtml opt_dirReset =
     (let dir = (case dir of None \<Rightarrow> estimateDirection B str opt_isHtml | Some d \<Rightarrow> d)
      in unicodeWrapWithKnownDir_priv B this dir str opt_isHtml opt_dirReset)"

text \<open>Lines 402-406.\<close>

definition unicodeWrap ::
  "bidi \<Rightarrow> BidiFormatter \<Rightarrow> jsstring \<Rightarrow> optbool \<Rightarrow> optbool \<Rightarrow> jsstring" where
  "unicodeWrap B this str opt_isHtml opt_dirReset =
     unicodeWrapWithKnownDir B this None str opt_isHtml opt_dirReset"

text \<open>Lines 512-519.\<close>

definition markAfterKnownDir ::
  "bidi \<Rightarrow> BidiFormatter \<Rightarrow> Dir option \<Rightarrow> jsstring \<Rightarrow> optbool \<Rightarrow> jsstring" where
  "markAfterKnownDir B this dir str opt_isHtml =
     (let dir = (case dir of None \<Rightarrow> estimateDirection B str opt_isHtml | Some d \<Rightarrow> d)
      in dirResetIfNeeded_priv B this str dir opt_isHtml (Bool True))"

text \<open>Lines 493-496.\<close>

definition markAfter :: "bidi \<Rightarrow> BidiFormatter \<Rightarrow> jsstring \<Rightarrow> optbool \<Rightarrow> jsstring" where
  "markAfter B this str opt_isHtml = markAfterKnownDir B this None str opt_isHtml"

text \<open>Lines 530-540: the \<open>switch\<close> on the context direction.\<close>

definition mark :: "BidiFormatter \<Rightarrow> jsstring" where
  "mark this =
     (case contextDir_priv this of
        Some LTR \<Rightarrow> LRM
      | Some RTL \<Rightarrow> RLM
      | _ \<Rightarrow> [])"

text \<open>Lines 550-554 and 564-568.\<close>

definition startEdge :: "BidiFormatter \<Rightarrow> jsstring" where
  "startEdge this = (if contextDir_priv this = Some RTL then RIGHT else LEFT)"

definition endEdge :: "BidiFormatter \<Rightarrow> jsstring" where
  "endEdge this = (if contextDir_priv this = Some RTL then LEFT else RIGHT)"

subsection \<open>Method calls on a formatter\<close>

text \<open>
  A call of a public method on a formatter, with its arguments, and what the call
  returns. \<open>call\<close> gives the returned value together with the formatter as the method
  body leaves it: the two setters assign a field, no other method body (lines 143-568)
  assigns to \<open>this.contextDir_\<close> or \<open>this.alwaysSpan_\<close>. The method
  \<open>estimateDirection\<close> is the estimator's function itself (line 152).
\<close>

datatype 'h methodCall =
    GetContextDir
  | GetAlwaysSpan
  | SetContextDir DirInput
  | SetAlwaysSpan bool
  | EstimateDirection jsstring optbool
  | DirAttrValue jsstring optbool
  | KnownDirAttrValue Dir
  | DirAttr jsstring optbool
  | KnownDirAttr Dir
  | SpanWrapSafeHtml 'h optbool
  | SpanWrapSafeHtmlWithKnownDir "Dir option" 'h optbool
  | UnicodeWrap jsstring optbool optbool
  | UnicodeWrapWithKnownDir "Dir option" jsstring optbool optbool
  | MarkAfter jsstring optbool
  | MarkAfterKnownDir "Dir option" jsstring optbool
  | Mark
  | StartEdge
  | EndEdge

datatype 'h returned =
    RUndefined
  | RBoolean bool
  | RDir "Dir option"
  | RString jsstring
  | RHtml 'h

fun call ::
  "'h SafeHtml \<Rightarrow> bidi \<Rightarrow> BidiFormatter \<Rightarrow> 'h methodCall \<Rightarrow> 'h returned \<times> BidiFormatter" where
  "call H B this GetContextDir = (RDir (getContextDir this), this)"
| "call H B this GetAlwaysSpan = (RBoolean (getAlwaysSpan this), this)"
| "call H B this (SetContextDir contextDir) = (RUndefined, setContextDir this contextDir)"
| "call H B this (SetAlwaysSpan alwaysSpan) = (RUndefined, setAlwaysSpan this alwaysSpan)"
| "call H B this (EstimateDirection str opt_isHtml) =
     (RDir (Some (estimateDirection B str opt_isHtml)), this)"
| "call H B this (DirAttrValue str opt_isHtml) =
     (RString (dirAttrValue B this str opt_isHtml), this)"
| "call H B this (KnownDirAttrValue dir) = (RString (knownDirAttrValue this dir), this)"
| "call H B this (DirAttr str opt_isHtml) = (RString (dirAttr B this str opt_isHtml), this)"
| "call H B this (KnownDirAttr dir) = (RString (knownDirAttr this dir), this)"
| "call H B this (SpanWrapSafeHtml html opt_dirReset) =
     (RHtml (spanWrapSafeHtml H B this html opt_dirReset), this)"
| "call H B this (SpanWrapSafeHtmlWithKnownDir dir html opt_dirReset) =
     (RHtml (spanWrapSafeHtmlWithKnownDir H B this dir html opt_dirReset), this)"
| "call H B this (UnicodeWrap str opt_isHtml opt_dirReset) =
     (RString (unicodeWrap B this str opt_isHtml opt_dirReset), this)"
| "call H B this (UnicodeWrapWithKnownDir dir str opt_isHtml opt_dirReset) =
     (RString (unicodeWrapWithKnownDir B this dir str opt_isHtml opt_dirReset), this)"
| "call H B this (MarkAfter str opt_isHtml) = (RString (markAfter B this str opt_isHtml), this)"
| "call H B this (MarkAfterKnownDir dir str opt_isHtml) =
     (RString (markAfterKnownDir B this dir str opt_isHtml), this)"
| "call H B this Mark = (RString (mark this), this)"
| "call H B this StartEdge = (RString (startEdge this), this)"
| "call H B this EndEdge = (RString (endEdge this), this)"

fun is_setter :: "'h methodCall \<Rightarrow> bool" where
  "is_setter (SetContextDir contextDir) = True"
| "is_setter (SetAlwaysSpan alwaysSpan) = True"
| "is_setter m = False"

subsection \<open>The method bodies as state transformers\<close>

text \<open>
  Each method body once more, statement by statement, as a state transformer on the
  formatter object: a read of a field reads the current state, an assignment to a field
  updates it, and a call of a method on \<open>this\<close> runs the body of that method from the
  current state and goes on from the state it leaves. The estimator and the operations of
  \<open>SafeHtml\<close> are functions of their arguments. That these bodies return the values of
  the functions above is proved in the next section.
\<close>

text \<open>A read of \<open>this.contextDir_\<close> and of \<open>this.alwaysSpan_\<close>.\<close>

definition this_contextDir :: "(BidiFormatter, Dir option) state" where
  "this_contextDir = do { this \<leftarrow> State_Monad.get; State_Monad.return (contextDir_priv this) }"

definition this_alwaysSpan :: "(BidiFormatter, bool) state" where
  "this_alwaysSpan = do { this \<leftarrow> State_Monad.get; State_Monad.return (alwaysSpan_priv this) }"

text \<open>An assignment to \<open>this.contextDir_\<close> and to \<open>this.alwaysSpan_\<close>.\<close>

definition assign_contextDir :: "Dir option \<Rightarrow> (BidiFormatter, unit) state" where
  "assign_contextDir v = State_Monad.update (\<lambda>this. this\<lparr>contextDir_priv := v\<rparr>)"

definition assign_alwaysSpan :: "bool \<Rightarrow> (BidiFormatter, unit) state" where
  "assign_alwaysSpan v = State_Monad.update (\<lambda>this. this\<lparr>alwaysSpan_priv := v\<rparr>)"

text \<open>Lines 101-104, 110-113, 125-128 and 137-140.\<close>

definition getContextDir_st :: "(BidiFormatter, Dir option) state" where
  "getContextDir_st = this_contextDir"

definition getAlwaysSpan_st :: "(BidiFormatter, bool) state" where
  "getAlwaysSpan_st = this_alwaysSpan"

definition setContextDir_st :: "DirInput \<Rightarrow> (BidiFormatter, unit) state" where
  "setContextDir_st contextDir = assign_contextDir (toDir contextDir True)"

definition setAlwaysSpan_st :: "bool \<Rightarrow> (BidiFormatter, unit) state" where
  "setAlwaysSpan_st alwaysSpan = assign_alwaysSpan alwaysSpan"

text \<open>Line 152: the estimator's function, called on the formatter.\<close>

definition estimateDirection_st :: "bidi \<Rightarrow> jsstring \<Rightarrow> optbool \<Rightarrow> (BidiFormatter, Dir) state" where
  "estimateDirection_st B str opt_isHtml =
     State_Monad.return (estimateDirection B str opt_isHtml)"

text \<open>Lines 165-169.\<close>

definition areDirectionalitiesOpposite_priv_st ::
  "Dir option \<Rightarrow> Dir option \<Rightarrow> (BidiFormatter, bool) state" where
  "areDirectionalitiesOpposite_priv_st dir1 dir2 =
     State_Monad.return (Number dir1 * Number dir2 < 0)"

text \<open>Lines 186-202, with the short-circuit evaluation of \<open>&&\<close> and \<open>||\<close>.\<close>

definition dirResetIfNeeded_priv_st ::
  "bidi \<Rightarrow> jsstring \<Rightarrow> Dir \<Rightarrow> optbool \<Rightarrow> optbool \<Rightarrow> (BidiFormatter, jsstring) state" where
  "dirResetIfNeeded_priv_st B str dir opt_isHtml opt_dirReset = do {
     needed \<leftarrow>
       (if truthy opt_dirReset then do {
          ctx \<leftarrow> this_contextDir;
          opposite \<leftarrow> areDirectionalitiesOpposite_priv_st (Some dir) ctx;
          if opposite then State_Monad.return True
          else do {
            ctx \<leftarrow> this_contextDir;
            if ctx = Some LTR \<and> endsWithRtl B str opt_isHtml then State_Monad.return True
            else do {
              ctx \<leftarrow> this_contextDir;
              State_Monad.return (ctx = Some RTL \<and> endsWithLtr B str opt_isHtml)
            }
          }
        }
        else State_Monad.return False);
     if needed then do {
       ctx \<leftarrow> this_contextDir;
       State_Monad.return (if ctx = Some LTR then LRM else RLM)
     }
     else State_Monad.return []
   }"

text \<open>Lines 234-238 and 220-223.\<close>

definition knownDirAttrValue_st :: "Dir \<Rightarrow> (BidiFormatter, jsstring) state" where
  "knownDirAttrValue_st dir = do {
     resolvedDir \<leftarrow> (if dir = NEUTRAL then this_contextDir else State_Monad.return (Some dir));
     State_Monad.return (if resolvedDir = Some RTL then ascii ''rtl'' else ascii ''ltr'')
   }"

definition dirAttrValue_st :: "bidi \<Rightarrow> jsstring \<Rightarrow> optbool \<Rightarrow> (BidiFormatter, jsstring) state" where
  "dirAttrValue_st B str opt_isHtml = do {
     dir \<leftarrow> estimateDirection_st B str opt_isHtml;
     knownDirAttrValue_st dir
   }"

text \<open>Lines 267-275 and 252-255.\<close>

definition knownDirAttr_st :: "Dir \<Rightarrow> (BidiFormatter, jsstring) state" where
  "knownDirAttr_st dir = do {
     ctx \<leftarrow> this_contextDir;
     if Some dir \<noteq> ctx
     then State_Monad.return
            (if dir = RTL then ascii ''dir=\"rtl\"''
             else if dir = LTR then ascii ''dir=\"ltr\"'' else [])
     else State_Monad.return []
   }"

definition dirAttr_st :: "bidi \<Rightarrow> jsstring \<Rightarrow> optbool \<Rightarrow> (BidiFormatter, jsstring) state" where
  "dirAttr_st B str opt_isHtml = do {
     dir \<leftarrow> estimateDirection_st B str opt_isHtml;
     knownDirAttr_st dir
   }"

text \<open>Lines 349-371, 327-334 and 299-303.\<close>

definition spanWrapWithKnownDir_priv_st ::
  "'h SafeHtml \<Rightarrow> bidi \<Rightarrow> Dir \<Rightarrow> 'h \<Rightarrow> optbool \<Rightarrow> (BidiFormatter, 'h) state" where
  "spanWrapWithKnownDir_priv_st H B dir html opt_dirReset = do {
     let opt_dirReset = default_true opt_dirReset;
     dirCondition \<leftarrow>
       (if dir \<noteq> NEUTRAL then do {
          ctx \<leftarrow> this_contextDir;
          State_Monad.return (Some dir \<noteq> ctx)
        }
        else State_Monad.return False);
     alwaysSpan \<leftarrow> this_alwaysSpan;
     let result =
       (if alwaysSpan \<or> dirCondition
        then (let dirAttribute =
                    (if dirCondition
                     then Some (if dir = RTL then ascii ''rtl'' else ascii ''ltr'')
                     else None)
              in create H (ascii ''span'') [(ascii ''dir'', dirAttribute)] html)
        else html);
     let str = unwrap H html;
     m \<leftarrow> dirResetIfNeeded_priv_st B str dir (Bool True) opt_dirReset;
     State_Monad.return (concat_html H result m)
   }"

definition spanWrapSafeHtmlWithKnownDir_st ::
  "'h SafeHtml \<Rightarrow> bidi \<Rightarrow> Dir option \<Rightarrow> 'h \<Rightarrow> optbool \<Rightarrow> (BidiFormatter, 'h) state" where
  "spanWrapSafeHtmlWithKnownDir_st H B dir html opt_dirReset = do {
     dir \<leftarrow> (case dir of
               None \<Rightarrow> estimateDirection_st B (unwrap H html) (Bool True)
             | Some d \<Rightarrow> State_Monad.return d);
     spanWrapWithKnownDir_priv_st H B dir html opt_dirReset
   }"

definition spanWrapSafeHtml_st ::
  "'h SafeHtml \<Rightarrow> bidi \<Rightarrow> 'h \<Rightarrow> optbool \<Rightarrow> (BidiFormatter, 'h) state" where
  "spanWrapSafeHtml_st H B html opt_dirReset =
     spanWrapSafeHtmlWithKnownDir_st H B None html opt_dirReset"

text \<open>Lines 462-479, 438-445 and 402-406.\<close>

definition unicodeWrapWithKnownDir_priv_st ::
  "bidi \<Rightarrow> Dir \<Rightarrow> jsstring \<Rightarrow> optbool \<Rightarrow> optbool \<Rightarrow> (BidiFormatter, jsstring) state" where
  "unicodeWrapWithKnownDir_priv_st B dir str opt_isHtml opt_dirReset = do {
     let opt_dirReset = default_true opt_dirReset;
     embed \<leftarrow>
       (if dir \<noteq> NEUTRAL then do {
          ctx \<leftarrow> this_contextDir;
          State_Monad.return (Some dir \<noteq> ctx)
        }
        else State_Monad.return False);
     let result = (if embed then [if dir = RTL then RLE else LRE, str, PDF] else [str]);
     m \<leftarrow> dirResetIfNeeded_priv_st B str dir opt_isHtml opt_dirReset;
     let result = result @ [m];
     State_Monad.return (concat result)
   }"

definition unicodeWrapWithKnownDir_st ::
  "bidi \<Rightarrow> Dir option \<Rightarrow> jsstring \<Rightarrow> optbool \<Rightarrow> optbool \<Rightarrow> (BidiFormatter, jsstring) state" where
  "unicodeWrapWithKnownDir_st B dir str opt_isHtml opt_dirReset = do {
     dir \<leftarrow> (case dir of
               None \<Rightarrow> estimateDirection_st B str opt_isHtml
             | Some d \<Rightarrow> State_Monad.return d);
     unicodeWrapWithKnownDir_priv_st B dir str opt_isHtml opt_dirReset
   }"

definition unicodeWrap_st ::
  "bidi \<Rightarrow> jsstring \<Rightarrow> optbool \<Rightarrow> optbool \<Rightarrow> (BidiFormatter, jsstring) state" where
  "unicodeWrap_st B str opt_isHtml opt_dirReset =
     unicodeWrapWithKnownDir_st B None str opt_isHtml opt_dirReset"

text \<open>Lines 512-519 and 493-496.\<close>

definition markAfterKnownDir_st ::
  "bidi \<Rightarrow> Dir option \<Rightarrow> jsstring \<Rightarrow> optbool \<Rightarrow> (BidiFormatter, jsstring) state" where
  "markAfterKnownDir_st B dir str opt_isHtml = do {
     dir \<leftarrow> (case dir of
               None \<Rightarrow> estimateDirection_st B str opt_isHtml
             | Some d \<Rightarrow> State_Monad.return d);
     dirResetIfNeeded_priv_st B str dir opt_isHtml (Bool True)
   }"

definition markAfter_st :: "bidi \<Rightarrow> jsstring \<Rightarrow> optbool \<Rightarrow> (BidiFormatter, jsstring) state" where
  "markAfter_st B str opt_isHtml = markAfterKnownDir_st B None str opt_isHtml"

text \<open>Lines 530-540, 550-554 and 564-568.\<close>

definition mark_st :: "(BidiFormatter, jsstring) state" where
  "mark_st = do {
     ctx \<leftarrow> this_contextDir;
     State_Monad.return (case ctx of Some LTR \<Rightarrow> LRM | Some RTL \<Rightarrow> RLM | _ \<Rightarrow> [])
   }"

definition startEdge_st :: "(BidiFormatter, jsstring) state" where
  "startEdge_st = do {
     ctx \<leftarrow> this_contextDir;
     State_Monad.return (if ctx = Some RTL then RIGHT else LEFT)
   }"

definition endEdge_st :: "(BidiFormatter, jsstring) state" where
  "endEdge_st = do {
     ctx \<leftarrow> this_contextDir;
     State_Monad.return (if ctx = Some RTL then LEFT else RIGHT)
   }"

text \<open>A body followed by the wrapping of what it returns.\<close>

definition returning :: "('a \<Rightarrow> 'b) \<Rightarrow> (BidiFormatter, 'a) state \<Rightarrow> (BidiFormatter, 'b) state" where
  "returning k body = do { r \<leftarrow> body; State_Monad.return (k r) }"

text \<open>The body that a call runs.\<close>

fun exec :: "'h SafeHtml \<Rightarrow> bidi \<Rightarrow> 'h methodCall \<Rightarrow> (BidiFormatter, 'h returned) state" where
  "exec H B GetContextDir = returning RDir getContextDir_st"
| "exec H B GetAlwaysSpan = returning RBoolean getAlwaysSpan_st"
| "exec H B (SetContextDir contextDir) =
     returning (\<lambda>u. RUndefined) (setContextDir_st contextDir)"
| "exec H B (SetAlwaysSpan alwaysSpan) =
     returning (\<lambda>u. RUndefined) (setAlwaysSpan_st alwaysSpan)"
| "exec H B (EstimateDirection str opt_isHtml) =
     returning (\<lambda>d. RDir (Some d)) (estimateDirection_st B str opt_isHtml)"
| "exec H B (DirAttrValue str opt_isHtml) = returning RString (dirAttrValue_st B str opt_isHtml)"
| "exec H B (KnownDirAttrValue dir) = returning RString (knownDirAttrValue_st dir)"
| "exec H B (DirAttr str opt_isHtml) = returning RString (dirAttr_st B str opt_isHtml)"
| "exec H B (KnownDirAttr dir) = returning RString (knownDirAttr_st dir)"
| "exec H B (SpanWrapSafeHtml html opt_dirReset) =
     returning RHtml (spanWrapSafeHtml_st H B html opt_dirReset)"
| "exec H B (SpanWrapSafeHtmlWithKnownDir dir html opt_dirReset) =
     returning RHtml (spanWrapSafeHtmlWithKnownDir_st H B dir html opt_dirReset)"
| "exec H B (UnicodeWrap str opt_isHtml opt_dirReset) =
     returning RString (unicodeWrap_st B str opt_isHtml opt_dirReset)"
| "exec H B (UnicodeWrapWithKnownDir dir str opt_isHtml opt_dirReset) =
     returning RString (unicodeWrapWithKnownDir_st B dir str opt_isHtml opt_dirReset)"
| "exec H B (MarkAfter str opt_isHtml) = returning RString (markAfter_st B str opt_isHtml)"
| "exec H B (MarkAfterKnownDir dir str opt_isHtml) =
     returning RString (markAfterKnownDir_st B dir str opt_isHtml)"
| "exec H B Mark = returning RString mark_st"
| "exec H B StartEdge = returning RString startEdge_st"
| "exec H B EndEdge = returning RString endEdge_st"

section \<open>Properties\<close>

subsection \<open>Auxiliary facts\<close>

lemma LRM_nonempty: "LRM \<noteq> []"
  by (simp add: LRM_def)

lemma RLM_nonempty: "RLM \<noteq> []"
  by (simp add: RLM_def)

lemma opposite_iff:
  "areDirectionalitiesOpposite_priv dir1 dir2 \<longleftrightarrow>
     (dir1 = Some LTR \<and> dir2 = Some RTL) \<or> (dir1 = Some RTL \<and> dir2 = Some LTR)"
proof (cases dir1)
  case None
  then show ?thesis by (simp add: areDirectionalitiesOpposite_priv_def)
next
  case (Some d1)
  show ?thesis
  proof (cases dir2)
    case None
    then show ?thesis by (simp add: areDirectionalitiesOpposite_priv_def)
  next
    case (Some d2)
    with \<open>dir1 = Some d1\<close> show ?thesis
      by (cases d1; cases d2) (simp_all add: areDirectionalitiesOpposite_priv_def)
  qed
qed

lemma dirReset_false: "dirResetIfNeeded_priv B this str dir opt_isHtml (Bool False) = []"
  by (simp add: dirResetIfNeeded_priv_def)

lemma default_true_eq: "default_true opt_dirReset = Bool (opt_dirReset \<noteq> Bool False)"
  by (cases opt_dirReset) (simp_all add: default_true_def)

lemma rtl_neq_ltr: "ascii ''rtl'' \<noteq> ascii ''ltr''"
  by (simp add: ascii_def)

lemma spanWrap_priv_eq:
  "spanWrapWithKnownDir_priv H B this dir html opt_dirReset =
     concat_html H
       (if alwaysSpan_priv this \<or> (dir \<noteq> NEUTRAL \<and> Some dir \<noteq> contextDir_priv this)
        then create H (ascii ''span'')
               [(ascii ''dir'',
                 if dir \<noteq> NEUTRAL \<and> Some dir \<noteq> contextDir_priv this
                 then Some (if dir = RTL then ascii ''rtl'' else ascii ''ltr'') else None)]
               html
        else html)
       (dirResetIfNeeded_priv B this (unwrap H html) dir (Bool True)
          (Bool (opt_dirReset \<noteq> Bool False)))"
  by (simp add: spanWrapWithKnownDir_priv_def Let_def default_true_eq)

lemma unicodeWrap_priv_eq:
  "unicodeWrapWithKnownDir_priv B this dir str opt_isHtml opt_dirReset =
     (if dir \<noteq> NEUTRAL \<and> Some dir \<noteq> contextDir_priv this
      then (if dir = RTL then RLE else LRE) @ str @ PDF else str)
     @ dirResetIfNeeded_priv B this str dir opt_isHtml (Bool (opt_dirReset \<noteq> Bool False))"
  by (simp add: unicodeWrapWithKnownDir_priv_def Let_def default_true_eq)

subsection \<open>What the method bodies return\<close>

lemma run_this_contextDir: "run_state this_contextDir this = (contextDir_priv this, this)"
  by (simp add: this_contextDir_def)

lemma run_this_alwaysSpan: "run_state this_alwaysSpan this = (alwaysSpan_priv this, this)"
  by (simp add: this_alwaysSpan_def)

lemma run_returning:
  "run_state (returning k body) this = (k (fst (run_state body this)), snd (run_state body this))"
  by (simp add: returning_def split: prod.splits)

lemma run_estimateDirection:
  "run_state (estimateDirection_st B str opt_isHtml) this =
     (estimateDirection B str opt_isHtml, this)"
  by (simp add: estimateDirection_st_def)

lemma run_areDirectionalitiesOpposite:
  "run_state (areDirectionalitiesOpposite_priv_st dir1 dir2) this =
     (areDirectionalitiesOpposite_priv dir1 dir2, this)"
  by (simp add: areDirectionalitiesOpposite_priv_st_def areDirectionalitiesOpposite_priv_def)

lemma run_dirResetIfNeeded:
  "run_state (dirResetIfNeeded_priv_st B str dir opt_isHtml opt_dirReset) this =
     (dirResetIfNeeded_priv B this str dir opt_isHtml opt_dirReset, this)"
  by (simp add: dirResetIfNeeded_priv_st_def dirResetIfNeeded_priv_def run_this_contextDir
        run_areDirectionalitiesOpposite)

lemma run_knownDirAttrValue:
  "run_state (knownDirAttrValue_st dir) this = (knownDirAttrValue this dir, this)"
  by (simp add: knownDirAttrValue_st_def knownDirAttrValue_def run_this_contextDir)

lemma run_dirAttrValue:
  "run_state (dirAttrValue_st B str opt_isHtml) this = (dirAttrValue B this str opt_isHtml, this)"
  by (simp add: dirAttrValue_st_def dirAttrValue_def run_estimateDirection run_knownDirAttrValue)

lemma run_knownDirAttr:
  "run_state (knownDirAttr_st dir) this = (knownDirAttr this dir, this)"
  by (simp add: knownDirAttr_st_def knownDirAttr_def run_this_contextDir)

lemma run_dirAttr:
  "run_state (dirAttr_st B str opt_isHtml) this = (dirAttr B this str opt_isHtml, this)"
  by (simp add: dirAttr_st_def dirAttr_def run_estimateDirection run_knownDirAttr)

lemma run_spanWrapWithKnownDir_priv:
  "run_state (spanWrapWithKnownDir_priv_st H B dir html opt_dirReset) this =
     (spanWrapWithKnownDir_priv H B this dir html opt_dirReset, this)"
  by (simp add: spanWrapWithKnownDir_priv_st_def spanWrapWithKnownDir_priv_def Let_def
        run_this_contextDir run_this_alwaysSpan run_dirResetIfNeeded)

lemma run_spanWrapSafeHtmlWithKnownDir:
  "run_state (spanWrapSafeHtmlWithKnownDir_st H B dir html opt_dirReset) this =
     (spanWrapSafeHtmlWithKnownDir H B this dir html opt_dirReset, this)"
  by (cases dir)
    (simp_all add: spanWrapSafeHtmlWithKnownDir_st_def spanWrapSafeHtmlWithKnownDir_def
       run_estimateDirection run_spanWrapWithKnownDir_priv)

lemma run_spanWrapSafeHtml:
  "run_state (spanWrapSafeHtml_st H B html opt_dirReset) this =
     (spanWrapSafeHtml H B this html opt_dirReset, this)"
  by (simp add: spanWrapSafeHtml_st_def spanWrapSafeHtml_def run_spanWrapSafeHtmlWithKnownDir)

lemma run_unicodeWrapWithKnownDir_priv:
  "run_state (unicodeWrapWithKnownDir_priv_st B dir str opt_isHtml opt_dirReset) this =
     (unicodeWrapWithKnownDir_priv B this dir str opt_isHtml opt_dirReset, this)"
  by (simp add: unicodeWrapWithKnownDir_priv_st_def unicodeWrapWithKnownDir_priv_def Let_def
        run_this_contextDir run_dirResetIfNeeded)

lemma run_unicodeWrapWithKnownDir:
  "run_state (unicodeWrapWithKnownDir_st B dir str opt_isHtml opt_dirReset) this =
     (unicodeWrapWithKnownDir B this dir str opt_isHtml opt_dirReset, this)"
  by (cases dir)
    (simp_all add: unicodeWrapWithKnownDir_st_def unicodeWrapWithKnownDir_def
       run_estimateDirection run_unicodeWrapWithKnownDir_priv)

lemma run_unicodeWrap:
  "run_state (unicodeWrap_st B str opt_isHtml opt_dirReset) this =
     (unicodeWrap B this str opt_isHtml opt_dirReset, this)"
  by (simp add: unicodeWrap_st_def unicodeWrap_def run_unicodeWrapWithKnownDir)

lemma run_markAfterKnownDir:
  "run_state (markAfterKnownDir_st B dir str opt_isHtml) this =
     (markAfterKnownDir B this dir str opt_isHtml, this)"
  by (cases dir)
    (simp_all add: markAfterKnownDir_st_def markAfterKnownDir_def
       run_estimateDirection run_dirResetIfNeeded)

lemma run_markAfter:
  "run_state (markAfter_st B str opt_isHtml) this = (markAfter B this str opt_isHtml, this)"
  by (simp add: markAfter_st_def markAfter_def run_markAfterKnownDir)

lemma run_mark: "run_state mark_st this = (mark this, this)"
  by (simp add: mark_st_def mark_def run_this_contextDir)

lemma run_startEdge: "run_state startEdge_st this = (startEdge this, this)"
  by (simp add: startEdge_st_def startEdge_def run_this_contextDir)

lemma run_endEdge: "run_state endEdge_st this = (endEdge this, this)"
  by (simp add: endEdge_st_def endEdge_def run_this_contextDir)

lemma run_setContextDir:
  "run_state (setContextDir_st contextDir) this = ((), setContextDir this contextDir)"
  by (simp add: setContextDir_st_def assign_contextDir_def setContextDir_def
        State_Monad.update_def)

lemma run_setAlwaysSpan:
  "run_state (setAlwaysSpan_st alwaysSpan) this = ((), setAlwaysSpan this alwaysSpan)"
  by (simp add: setAlwaysSpan_st_def assign_alwaysSpan_def setAlwaysSpan_def
        State_Monad.update_def)

lemma run_exec: "run_state (exec H B m) this = call H B this m"
  by (cases m)
    (simp_all add: run_returning getContextDir_st_def getAlwaysSpan_st_def getContextDir_def
       getAlwaysSpan_def run_this_contextDir run_this_alwaysSpan run_setContextDir
       run_setAlwaysSpan run_estimateDirection run_dirAttrValue run_knownDirAttrValue
       run_dirAttr run_knownDirAttr run_spanWrapSafeHtml run_spanWrapSafeHtmlWithKnownDir
       run_unicodeWrap run_unicodeWrapWithKnownDir run_markAfter run_markAfterKnownDir
       run_mark run_startEdge run_endEdge)

subsection \<open>The trailing mark\<close>

text \<open>
  C1 (trailing-mark reset rule). For every text \<open>str\<close>, overall direction \<open>dir\<close> and
  \<open>isHtml\<close> flag, \<open>dirResetIfNeeded_\<close> returns a mark (a non-empty string) if and only
  if the reset flag is true and \<open>dir\<close> is opposite to the context direction, or the context
  is LTR and the text ends with RTL, or the context is RTL and the text ends with LTR.
  The mark is then LRM in an LTR context and RLM in an RTL context, and the context is
  one of the two; otherwise the result is the empty string, and so it is whenever the
  context direction is unknown. The mark-after operation is this rule with the reset
  flag true.
\<close>

theorem trailing_mark_reset_rule:
  "let ctx = contextDir_priv this;
       needed = (truthy opt_dirReset \<and>
                  ((dir = RTL \<and> ctx = Some LTR) \<or> (dir = LTR \<and> ctx = Some RTL) \<or>
                   (ctx = Some LTR \<and> endsWithRtl B str opt_isHtml) \<or>
                   (ctx = Some RTL \<and> endsWithLtr B str opt_isHtml)));
       m = dirResetIfNeeded_priv B this str dir opt_isHtml opt_dirReset
   in (needed \<longleftrightarrow> m \<noteq> [])
      \<and> (needed \<and> ctx = Some LTR \<longrightarrow> m = LRM)
      \<and> (needed \<and> ctx = Some RTL \<longrightarrow> m = RLM)
      \<and> (needed \<longrightarrow> ctx = Some LTR \<or> ctx = Some RTL)
      \<and> (\<not> needed \<longrightarrow> m = [])
      \<and> (ctx = None \<longrightarrow> m = [])
      \<and> markAfterKnownDir B this (Some dir) str opt_isHtml =
          dirResetIfNeeded_priv B this str dir opt_isHtml (Bool True)"
  unfolding Let_def dirResetIfNeeded_priv_def markAfterKnownDir_def opposite_iff
  using LRM_nonempty RLM_nonempty by auto

text \<open>
  The Hebrew word shalom, of direction RTL, in an LTR context; a neutral text that ends
  with LTR, in an RTL context; shalom in an unknown context; and shalom without reset.
\<close>

theorem trailing_mark_reset_rule_witness:
  "dirResetIfNeeded_priv (constBidi RTL True False)
     \<lparr>contextDir_priv = Some LTR, alwaysSpan_priv = False\<rparr>
     [0x05E9, 0x05DC, 0x05D5, 0x05DD] RTL Undefined (Bool True) = [0x200E] \<and>
   dirResetIfNeeded_priv (constBidi NEUTRAL False True)
     \<lparr>contextDir_priv = Some RTL, alwaysSpan_priv = False\<rparr>
     (ascii ''1 a'') NEUTRAL Undefined (Bool True) = [0x200F] \<and>
   dirResetIfNeeded_priv (constBidi RTL True False)
     \<lparr>contextDir_priv = None, alwaysSpan_priv = False\<rparr>
     [0x05E9, 0x05DC, 0x05D5, 0x05DD] RTL Undefined (Bool True) = [] \<and>
   dirResetIfNeeded_priv (constBidi RTL True False)
     \<lparr>contextDir_priv = Some LTR, alwaysSpan_priv = False\<rparr>
     [0x05E9, 0x05DC, 0x05D5, 0x05DD] RTL Undefined (Bool False) = []"
  using trailing_mark_reset_rule
    [where this = "\<lparr>contextDir_priv = Some LTR, alwaysSpan_priv = False\<rparr>"
       and B = "constBidi RTL True False" and dir = RTL and opt_dirReset = "Bool True"
       and str = "[0x05E9, 0x05DC, 0x05D5, 0x05DD]" and opt_isHtml = Undefined]
    trailing_mark_reset_rule
    [where this = "\<lparr>contextDir_priv = Some RTL, alwaysSpan_priv = False\<rparr>"
       and B = "constBidi NEUTRAL False True" and dir = NEUTRAL and opt_dirReset = "Bool True"
       and str = "ascii ''1 a''" and opt_isHtml = Undefined]
    trailing_mark_reset_rule
    [where this = "\<lparr>contextDir_priv = None, alwaysSpan_priv = False\<rparr>"
       and B = "constBidi RTL True False" and dir = RTL and opt_dirReset = "Bool True"
       and str = "[0x05E9, 0x05DC, 0x05D5, 0x05DD]" and opt_isHtml = Undefined]
    trailing_mark_reset_rule
    [where this = "\<lparr>contextDir_priv = Some LTR, alwaysSpan_priv = False\<rparr>"
       and B = "constBidi RTL True False" and dir = RTL and opt_dirReset = "Bool False"
       and str = "[0x05E9, 0x05DC, 0x05D5, 0x05DD]" and opt_isHtml = Undefined]
  by (simp add: Let_def LRM_def RLM_def constBidi_def)

subsection \<open>Wrapping\<close>

text \<open>
  C2 (markup wrap decision). For every known direction \<open>dir\<close>, markup value and reset
  flag, with \<open>dirCondition\<close> being that \<open>dir\<close> is not NEUTRAL and differs from the context
  direction: the value is put in a \<open>span\<close> exactly when \<open>alwaysSpan\<close> is set or
  \<open>dirCondition\<close> holds, with the attribute \<open>dir\<close> being "rtl" for RTL and "ltr" for LTR
  when \<open>dirCondition\<close> holds and absent when only \<open>alwaysSpan\<close> forced the wrap; otherwise
  the value is passed on as it is. In every case the trailing mark is that of the text of
  the value given, not of the wrapped result. The public method, given a known direction,
  is the same function.
\<close>

theorem spanWrapWithKnownDir_decision:
  "let dirCondition = (dir \<noteq> NEUTRAL \<and> Some dir \<noteq> contextDir_priv this);
       trailing = dirResetIfNeeded_priv B this (unwrap H html) dir (Bool True)
                    (default_true opt_dirReset);
       span = (\<lambda>dirAttribute. create H (ascii ''span'') [(ascii ''dir'', dirAttribute)] html);
       r = spanWrapWithKnownDir_priv H B this dir html opt_dirReset
   in (dirCondition \<and> dir = RTL \<longrightarrow> r = concat_html H (span (Some (ascii ''rtl''))) trailing)
      \<and> (dirCondition \<and> dir = LTR \<longrightarrow> r = concat_html H (span (Some (ascii ''ltr''))) trailing)
      \<and> (alwaysSpan_priv this \<and> \<not> dirCondition \<longrightarrow> r = concat_html H (span None) trailing)
      \<and> (\<not> alwaysSpan_priv this \<and> \<not> dirCondition \<longrightarrow> r = concat_html H html trailing)
      \<and> spanWrapSafeHtmlWithKnownDir H B this (Some dir) html opt_dirReset = r"
proof -
  have known: "spanWrapSafeHtmlWithKnownDir H B this (Some dir) html opt_dirReset =
      spanWrapWithKnownDir_priv H B this dir html opt_dirReset"
    by (simp add: spanWrapSafeHtmlWithKnownDir_def)
  show ?thesis
    unfolding Let_def known
    unfolding spanWrapWithKnownDir_priv_def Let_def by auto
qed

text \<open>
  The spec's scenario, "Hello" in an RTL context with \<open>alwaysSpan\<close> set; the same in an
  LTR context, where the \<open>span\<close> has no attribute; and without \<open>alwaysSpan\<close>.
\<close>

theorem spanWrapWithKnownDir_decision_witness:
  "spanWrapWithKnownDir_priv textHtml (constBidi LTR False True)
     \<lparr>contextDir_priv = Some RTL, alwaysSpan_priv = True\<rparr> LTR (ascii ''Hello'') Undefined =
   ascii ''<span dir=\"ltr\">Hello</span>'' @ [0x200F] \<and>
   spanWrapWithKnownDir_priv textHtml (constBidi LTR False True)
     \<lparr>contextDir_priv = Some LTR, alwaysSpan_priv = True\<rparr> LTR (ascii ''Hello'') Undefined =
   ascii ''<span>Hello</span>'' \<and>
   spanWrapWithKnownDir_priv textHtml (constBidi LTR False True)
     \<lparr>contextDir_priv = Some LTR, alwaysSpan_priv = False\<rparr> LTR (ascii ''Hello'') Undefined =
   ascii ''Hello''"
  using spanWrapWithKnownDir_decision
    [where this = "\<lparr>contextDir_priv = Some RTL, alwaysSpan_priv = True\<rparr>"
       and B = "constBidi LTR False True" and dir = LTR and opt_dirReset = Undefined
       and H = textHtml and html = "ascii ''Hello''"]
    spanWrapWithKnownDir_decision
    [where this = "\<lparr>contextDir_priv = Some LTR, alwaysSpan_priv = True\<rparr>"
       and B = "constBidi LTR False True" and dir = LTR and opt_dirReset = Undefined
       and H = textHtml and html = "ascii ''Hello''"]
    spanWrapWithKnownDir_decision
    [where this = "\<lparr>contextDir_priv = Some LTR, alwaysSpan_priv = False\<rparr>"
       and B = "constBidi LTR False True" and dir = LTR and opt_dirReset = Undefined
       and H = textHtml and html = "ascii ''Hello''"]
  by (simp add: Let_def textHtml_def ascii_def dirResetIfNeeded_priv_def default_true_def
        constBidi_def areDirectionalitiesOpposite_priv_def RLM_def)

text \<open>
  C3 (wrap with Unicode control characters). For every known direction \<open>dir\<close>, text
  \<open>str\<close>, \<open>isHtml\<close> flag and reset flag, the result is RLE, \<open>str\<close>, PDF when \<open>dir\<close> is RTL
  and differs from the context direction; LRE, \<open>str\<close>, PDF when \<open>dir\<close> is LTR and differs
  from the context direction; and \<open>str\<close> itself when \<open>dir\<close> is NEUTRAL or equals the
  context direction; each followed by the trailing mark of the reset rule. The text is
  part of the result as it was given. The public method, given a known direction, is the
  same function.
\<close>

theorem unicodeWrapWithKnownDir_result:
  "let ctx = contextDir_priv this;
       trailing = dirResetIfNeeded_priv B this str dir opt_isHtml (default_true opt_dirReset);
       r = unicodeWrapWithKnownDir_priv B this dir str opt_isHtml opt_dirReset
   in (dir = RTL \<and> ctx \<noteq> Some RTL \<longrightarrow> r = RLE @ str @ PDF @ trailing)
      \<and> (dir = LTR \<and> ctx \<noteq> Some LTR \<longrightarrow> r = LRE @ str @ PDF @ trailing)
      \<and> (dir = NEUTRAL \<or> ctx = Some dir \<longrightarrow> r = str @ trailing)
      \<and> unicodeWrapWithKnownDir B this (Some dir) str opt_isHtml opt_dirReset = r"
  unfolding Let_def unicodeWrapWithKnownDir_priv_def unicodeWrapWithKnownDir_def by auto

text \<open>
  The spec's scenario, shalom in an LTR context; "Hello" in an RTL context; and digits,
  which are neutral.
\<close>

theorem unicodeWrapWithKnownDir_result_witness:
  "unicodeWrapWithKnownDir (constBidi RTL True False)
     \<lparr>contextDir_priv = Some LTR, alwaysSpan_priv = False\<rparr> (Some RTL)
     [0x05E9, 0x05DC, 0x05D5, 0x05DD] Undefined Undefined =
   [0x202B, 0x05E9, 0x05DC, 0x05D5, 0x05DD, 0x202C, 0x200E] \<and>
   unicodeWrapWithKnownDir (constBidi LTR False True)
     \<lparr>contextDir_priv = Some RTL, alwaysSpan_priv = False\<rparr> (Some LTR)
     (ascii ''Hello'') Undefined Undefined =
   [0x202A] @ ascii ''Hello'' @ [0x202C, 0x200F] \<and>
   unicodeWrapWithKnownDir (constBidi NEUTRAL False False)
     \<lparr>contextDir_priv = Some RTL, alwaysSpan_priv = False\<rparr> (Some NEUTRAL)
     (ascii ''123'') Undefined Undefined =
   ascii ''123''"
  using unicodeWrapWithKnownDir_result
    [where this = "\<lparr>contextDir_priv = Some LTR, alwaysSpan_priv = False\<rparr>"
       and B = "constBidi RTL True False" and dir = RTL and opt_dirReset = Undefined
       and str = "[0x05E9, 0x05DC, 0x05D5, 0x05DD]" and opt_isHtml = Undefined]
    unicodeWrapWithKnownDir_result
    [where this = "\<lparr>contextDir_priv = Some RTL, alwaysSpan_priv = False\<rparr>"
       and B = "constBidi LTR False True" and dir = LTR and opt_dirReset = Undefined
       and str = "ascii ''Hello''" and opt_isHtml = Undefined]
    unicodeWrapWithKnownDir_result
    [where this = "\<lparr>contextDir_priv = Some RTL, alwaysSpan_priv = False\<rparr>"
       and B = "constBidi NEUTRAL False False" and dir = NEUTRAL and opt_dirReset = Undefined
       and str = "ascii ''123''" and opt_isHtml = Undefined]
  by (simp add: Let_def dirResetIfNeeded_priv_def default_true_def RLE_def LRE_def PDF_def
        LRM_def RLM_def constBidi_def areDirectionalitiesOpposite_priv_def)

text \<open>
  C6 (round trip). For every markup value and direction \<open>dir\<close>: when the reset flag is
  \<open>false\<close>, the context direction is \<open>dir\<close> and \<open>alwaysSpan\<close> is not set, no container
  is applied and no mark is appended: the result is \<open>SafeHtml.concat\<close> of the value given
  and the empty string (line 368), which is the value itself for every implementation of
  \<open>SafeHtml\<close> where concatenating the empty string changes nothing.
\<close>

theorem spanWrap_round_trip:
  "contextDir_priv this = Some dir \<Longrightarrow> \<not> alwaysSpan_priv this \<Longrightarrow>
     spanWrapWithKnownDir_priv H B this dir html (Bool False) = concat_html H html [] \<and>
     spanWrapSafeHtmlWithKnownDir H B this (Some dir) html (Bool False) = concat_html H html [] \<and>
     (concat_html H html [] = html \<longrightarrow>
        spanWrapWithKnownDir_priv H B this dir html (Bool False) = html \<and>
        spanWrapSafeHtmlWithKnownDir H B this (Some dir) html (Bool False) = html)"
  by (simp add: spanWrapWithKnownDir_priv_def spanWrapSafeHtmlWithKnownDir_def Let_def
        default_true_def dirReset_false)

theorem spanWrap_round_trip_witness:
  "contextDir_priv \<lparr>contextDir_priv = Some RTL, alwaysSpan_priv = False\<rparr> = Some RTL \<and>
   \<not> alwaysSpan_priv \<lparr>contextDir_priv = Some RTL, alwaysSpan_priv = False\<rparr> \<and>
   concat_html textHtml [0x05E9, 0x05DC, 0x05D5, 0x05DD] [] = [0x05E9, 0x05DC, 0x05D5, 0x05DD] \<and>
   spanWrapWithKnownDir_priv textHtml (constBidi RTL True False)
     \<lparr>contextDir_priv = Some RTL, alwaysSpan_priv = False\<rparr> RTL
     [0x05E9, 0x05DC, 0x05D5, 0x05DD] (Bool False) = [0x05E9, 0x05DC, 0x05D5, 0x05DD]"
  using spanWrap_round_trip
    [where this = "\<lparr>contextDir_priv = Some RTL, alwaysSpan_priv = False\<rparr>" and dir = RTL
       and H = textHtml and B = "constBidi RTL True False"
       and html = "[0x05E9, 0x05DC, 0x05D5, 0x05DD]"]
  by (simp add: textHtml_def)

text \<open>
  C10 (default of the reset flag). In both wrap operations a reset flag that is omitted
  or \<open>null\<close> is treated as \<open>true\<close>, and the effective flag is false exactly when the
  caller passes \<open>false\<close>. With the flag omitted, \<open>null\<close> or \<open>true\<close> the markup wrap
  returns the wrapped value concatenated with the mark of the reset rule for the text of
  the value, and the wrap with control characters returns the wrapped text followed by
  the mark of the reset rule for the text; with \<open>false\<close> the one concatenates the empty
  string and the other appends nothing. The public methods pass the flag on to these two,
  with the direction given or estimated.
\<close>

theorem dirReset_default_true:
  "let reset = Bool (opt_dirReset \<noteq> Bool False);
       dirCondition = (dir \<noteq> NEUTRAL \<and> Some dir \<noteq> contextDir_priv this);
       wrapped =
         (if alwaysSpan_priv this \<or> dirCondition
          then create H (ascii ''span'')
                 [(ascii ''dir'',
                   if dirCondition
                   then Some (if dir = RTL then ascii ''rtl'' else ascii ''ltr'') else None)]
                 html
          else html);
       embedded = (if dirCondition then (if dir = RTL then RLE else LRE) @ str @ PDF else str);
       htmlMark = dirResetIfNeeded_priv B this (unwrap H html) dir (Bool True) (Bool True);
       strMark = dirResetIfNeeded_priv B this str dir opt_isHtml (Bool True)
   in (truthy (default_true opt_dirReset) \<longleftrightarrow> opt_dirReset \<noteq> Bool False)
      \<and> default_true opt_dirReset = reset
      \<and> spanWrapWithKnownDir_priv H B this dir html opt_dirReset =
          spanWrapWithKnownDir_priv H B this dir html reset
      \<and> unicodeWrapWithKnownDir_priv B this dir str opt_isHtml opt_dirReset =
          unicodeWrapWithKnownDir_priv B this dir str opt_isHtml reset
      \<and> spanWrapWithKnownDir_priv H B this dir html Undefined = concat_html H wrapped htmlMark
      \<and> spanWrapWithKnownDir_priv H B this dir html Null = concat_html H wrapped htmlMark
      \<and> spanWrapWithKnownDir_priv H B this dir html (Bool True) = concat_html H wrapped htmlMark
      \<and> spanWrapWithKnownDir_priv H B this dir html (Bool False) = concat_html H wrapped []
      \<and> unicodeWrapWithKnownDir_priv B this dir str opt_isHtml Undefined = embedded @ strMark
      \<and> unicodeWrapWithKnownDir_priv B this dir str opt_isHtml Null = embedded @ strMark
      \<and> unicodeWrapWithKnownDir_priv B this dir str opt_isHtml (Bool True) = embedded @ strMark
      \<and> unicodeWrapWithKnownDir_priv B this dir str opt_isHtml (Bool False) = embedded
      \<and> (opt_dirReset \<noteq> Bool False \<longrightarrow>
            spanWrapWithKnownDir_priv H B this dir html opt_dirReset =
              concat_html H wrapped htmlMark \<and>
            unicodeWrapWithKnownDir_priv B this dir str opt_isHtml opt_dirReset =
              embedded @ strMark)
      \<and> (opt_dirReset = Bool False \<longrightarrow>
            spanWrapWithKnownDir_priv H B this dir html opt_dirReset =
              concat_html H wrapped [] \<and>
            unicodeWrapWithKnownDir_priv B this dir str opt_isHtml opt_dirReset = embedded)
      \<and> spanWrapSafeHtmlWithKnownDir H B this odir html opt_dirReset =
          spanWrapWithKnownDir_priv H B this
            (case odir of
               None \<Rightarrow> estimateDirection B (unwrap H html) (Bool True)
             | Some d \<Rightarrow> d)
            html reset
      \<and> spanWrapSafeHtml H B this html opt_dirReset =
          spanWrapWithKnownDir_priv H B this
            (estimateDirection B (unwrap H html) (Bool True)) html reset
      \<and> unicodeWrapWithKnownDir B this odir str opt_isHtml opt_dirReset =
          unicodeWrapWithKnownDir_priv B this
            (case odir of None \<Rightarrow> estimateDirection B str opt_isHtml | Some d \<Rightarrow> d)
            str opt_isHtml reset
      \<and> unicodeWrap B this str opt_isHtml opt_dirReset =
          unicodeWrapWithKnownDir_priv B this (estimateDirection B str opt_isHtml)
            str opt_isHtml reset"
proof -
  have private_methods:
    "\<And>d r. spanWrapWithKnownDir_priv H B this d html (Bool (r \<noteq> Bool False)) =
       spanWrapWithKnownDir_priv H B this d html r"
    "\<And>d r. unicodeWrapWithKnownDir_priv B this d str opt_isHtml (Bool (r \<noteq> Bool False)) =
       unicodeWrapWithKnownDir_priv B this d str opt_isHtml r"
    by (simp_all add: spanWrap_priv_eq unicodeWrap_priv_eq)
  have public_methods:
    "spanWrapSafeHtmlWithKnownDir H B this odir html opt_dirReset =
      spanWrapWithKnownDir_priv H B this
        (case odir of None \<Rightarrow> estimateDirection B (unwrap H html) (Bool True) | Some d \<Rightarrow> d)
        html (Bool (opt_dirReset \<noteq> Bool False))"
    "spanWrapSafeHtml H B this html opt_dirReset =
      spanWrapWithKnownDir_priv H B this (estimateDirection B (unwrap H html) (Bool True))
        html (Bool (opt_dirReset \<noteq> Bool False))"
    "unicodeWrapWithKnownDir B this odir str opt_isHtml opt_dirReset =
      unicodeWrapWithKnownDir_priv B this
        (case odir of None \<Rightarrow> estimateDirection B str opt_isHtml | Some d \<Rightarrow> d)
        str opt_isHtml (Bool (opt_dirReset \<noteq> Bool False))"
    "unicodeWrap B this str opt_isHtml opt_dirReset =
      unicodeWrapWithKnownDir_priv B this (estimateDirection B str opt_isHtml)
        str opt_isHtml (Bool (opt_dirReset \<noteq> Bool False))"
    by (simp_all add: private_methods spanWrapSafeHtmlWithKnownDir_def spanWrapSafeHtml_def
          unicodeWrapWithKnownDir_def unicodeWrap_def)
  have flag_values: "default_true opt_dirReset = Bool (opt_dirReset \<noteq> Bool False)"
    "truthy (default_true opt_dirReset) \<longleftrightarrow> opt_dirReset \<noteq> Bool False"
    by (simp_all add: default_true_eq)
  show ?thesis
    unfolding Let_def public_methods flag_values
    by (simp add: spanWrap_priv_eq unicodeWrap_priv_eq dirReset_false)
qed

text \<open>
  Shalom in an LTR context: the markup wrap with the flag omitted, \<open>null\<close> and \<open>false\<close>,
  and the wrap with control characters with \<open>null\<close> and \<open>false\<close>.
\<close>

theorem dirReset_default_true_witness:
  "spanWrapWithKnownDir_priv textHtml (constBidi RTL True False)
     \<lparr>contextDir_priv = Some LTR, alwaysSpan_priv = False\<rparr> RTL
     [0x05E9, 0x05DC, 0x05D5, 0x05DD] Undefined =
   ascii ''<span dir=\"rtl\">'' @ [0x05E9, 0x05DC, 0x05D5, 0x05DD] @ ascii ''</span>''
     @ [0x200E] \<and>
   spanWrapWithKnownDir_priv textHtml (constBidi RTL True False)
     \<lparr>contextDir_priv = Some LTR, alwaysSpan_priv = False\<rparr> RTL
     [0x05E9, 0x05DC, 0x05D5, 0x05DD] Null =
   ascii ''<span dir=\"rtl\">'' @ [0x05E9, 0x05DC, 0x05D5, 0x05DD] @ ascii ''</span>''
     @ [0x200E] \<and>
   spanWrapWithKnownDir_priv textHtml (constBidi RTL True False)
     \<lparr>contextDir_priv = Some LTR, alwaysSpan_priv = False\<rparr> RTL
     [0x05E9, 0x05DC, 0x05D5, 0x05DD] (Bool False) =
   ascii ''<span dir=\"rtl\">'' @ [0x05E9, 0x05DC, 0x05D5, 0x05DD] @ ascii ''</span>'' \<and>
   unicodeWrapWithKnownDir_priv (constBidi RTL True False)
     \<lparr>contextDir_priv = Some LTR, alwaysSpan_priv = False\<rparr> RTL
     [0x05E9, 0x05DC, 0x05D5, 0x05DD] Undefined Null =
   [0x202B, 0x05E9, 0x05DC, 0x05D5, 0x05DD, 0x202C, 0x200E] \<and>
   unicodeWrapWithKnownDir_priv (constBidi RTL True False)
     \<lparr>contextDir_priv = Some LTR, alwaysSpan_priv = False\<rparr> RTL
     [0x05E9, 0x05DC, 0x05D5, 0x05DD] Undefined (Bool False) =
   [0x202B, 0x05E9, 0x05DC, 0x05D5, 0x05DD, 0x202C]"
  using dirReset_default_true
    [where this = "\<lparr>contextDir_priv = Some LTR, alwaysSpan_priv = False\<rparr>"
       and B = "constBidi RTL True False" and dir = RTL and opt_dirReset = Null
       and str = "[0x05E9, 0x05DC, 0x05D5, 0x05DD]" and opt_isHtml = Undefined
       and H = textHtml and html = "[0x05E9, 0x05DC, 0x05D5, 0x05DD]" and odir = "Some RTL"]
  by (simp add: Let_def dirResetIfNeeded_priv_def RLE_def PDF_def LRM_def textHtml_def
        ascii_def constBidi_def areDirectionalitiesOpposite_priv_def)

subsection \<open>Attributes\<close>

text \<open>
  C4 (conditional attribute). For every direction \<open>dir\<close> and context direction,
  \<open>knownDirAttr\<close> returns the empty string when \<open>dir\<close> is the context direction; when it
  is not, \<open>dir="rtl"\<close> for RTL, \<open>dir="ltr"\<close> for LTR and the empty string for NEUTRAL.
  An unknown context direction differs from every \<open>dir\<close>, so the attribute is then
  returned for every \<open>dir\<close> but NEUTRAL.
\<close>

theorem knownDirAttr_conditional:
  "let ctx = contextDir_priv this; a = knownDirAttr this dir
   in (ctx = Some dir \<longrightarrow> a = [])
      \<and> (ctx \<noteq> Some dir \<and> dir = RTL \<longrightarrow> a = ascii ''dir=\"rtl\"'')
      \<and> (ctx \<noteq> Some dir \<and> dir = LTR \<longrightarrow> a = ascii ''dir=\"ltr\"'')
      \<and> (ctx \<noteq> Some dir \<and> dir = NEUTRAL \<longrightarrow> a = [])
      \<and> (ctx = None \<and> dir \<noteq> NEUTRAL \<longrightarrow>
            a = (if dir = RTL then ascii ''dir=\"rtl\"'' else ascii ''dir=\"ltr\"'') \<and> a \<noteq> [])"
  unfolding Let_def knownDirAttr_def by (cases dir) (auto simp: ascii_def)

theorem knownDirAttr_conditional_witness:
  "contextDir_priv \<lparr>contextDir_priv = Some LTR, alwaysSpan_priv = False\<rparr> \<noteq> Some RTL \<and>
   knownDirAttr \<lparr>contextDir_priv = Some LTR, alwaysSpan_priv = False\<rparr> RTL = ascii ''dir=\"rtl\"'' \<and>
   knownDirAttr \<lparr>contextDir_priv = Some LTR, alwaysSpan_priv = False\<rparr> LTR = []"
  using knownDirAttr_conditional
    [where this = "\<lparr>contextDir_priv = Some LTR, alwaysSpan_priv = False\<rparr>" and dir = RTL]
    knownDirAttr_conditional
    [where this = "\<lparr>contextDir_priv = Some LTR, alwaysSpan_priv = False\<rparr>" and dir = LTR]
  by (simp add: Let_def)

text \<open>
  C5 (attribute value). For every direction \<open>dir\<close>, NEUTRAL included, and every context
  direction, unknown included, \<open>knownDirAttrValue\<close> returns "rtl" or "ltr", which are
  different strings; NEUTRAL resolves to the context direction, an unknown context gives
  "ltr", and the result is "rtl" exactly when the resolved direction is RTL.
\<close>

theorem knownDirAttrValue_total:
  "let ctx = contextDir_priv this;
       resolvedDir = (if dir = NEUTRAL then ctx else Some dir);
       v = knownDirAttrValue this dir
   in (v = ascii ''rtl'' \<or> v = ascii ''ltr'')
      \<and> ascii ''rtl'' \<noteq> ascii ''ltr''
      \<and> (v = ascii ''rtl'' \<longleftrightarrow> resolvedDir = Some RTL)
      \<and> (v = ascii ''ltr'' \<longleftrightarrow> resolvedDir \<noteq> Some RTL)
      \<and> (dir = NEUTRAL \<and> ctx = None \<longrightarrow> v = ascii ''ltr'')
      \<and> (dir = NEUTRAL \<and> ctx = Some RTL \<longrightarrow> v = ascii ''rtl'')
      \<and> (dir = NEUTRAL \<and> ctx = Some LTR \<longrightarrow> v = ascii ''ltr'')"
  unfolding Let_def knownDirAttrValue_def using rtl_neq_ltr by auto

theorem knownDirAttrValue_total_witness:
  "knownDirAttrValue \<lparr>contextDir_priv = None, alwaysSpan_priv = False\<rparr> NEUTRAL = ascii ''ltr'' \<and>
   knownDirAttrValue \<lparr>contextDir_priv = Some RTL, alwaysSpan_priv = False\<rparr> NEUTRAL = ascii ''rtl''"
  using knownDirAttrValue_total
    [where this = "\<lparr>contextDir_priv = None, alwaysSpan_priv = False\<rparr>" and dir = NEUTRAL]
    knownDirAttrValue_total
    [where this = "\<lparr>contextDir_priv = Some RTL, alwaysSpan_priv = False\<rparr>" and dir = NEUTRAL]
  by (simp add: Let_def)

subsection \<open>The bare mark and the opposite-direction test\<close>

text \<open>
  C7 (the bare mark). \<open>mark()\<close> returns LRM when the context direction is LTR, RLM when
  it is RTL and the empty string otherwise, in particular when it is unknown. A call
  leaves the formatter as it was, so a second call returns the same; the result depends on
  the context direction only; and after \<open>setContextDir\<close> the next call returns the mark
  of the new context direction.
\<close>

theorem mark_context:
  "mark this =
     (if contextDir_priv this = Some LTR then LRM
      else if contextDir_priv this = Some RTL then RLM else [])
   \<and> (contextDir_priv this = None \<longrightarrow> mark this = [])
   \<and> call H B this Mark = (RString (mark this), this)
   \<and> call H B (snd (call H B this Mark)) Mark = call H B this Mark
   \<and> (contextDir_priv that = contextDir_priv this \<longrightarrow> mark that = mark this)
   \<and> contextDir_priv (setContextDir this contextDir) = toDir contextDir True
   \<and> fst (call H B (snd (call H B this (SetContextDir contextDir))) Mark) =
       RString (case toDir contextDir True of Some LTR \<Rightarrow> LRM | Some RTL \<Rightarrow> RLM | _ \<Rightarrow> [])"
  by (auto simp: mark_def setContextDir_def split: option.splits Dir.splits)

theorem mark_context_witness:
  "mark \<lparr>contextDir_priv = Some LTR, alwaysSpan_priv = False\<rparr> = [0x200E] \<and>
   mark \<lparr>contextDir_priv = None, alwaysSpan_priv = False\<rparr> = [] \<and>
   fst (call textHtml (constBidi NEUTRAL False False)
         (snd (call textHtml (constBidi NEUTRAL False False)
                 \<lparr>contextDir_priv = Some LTR, alwaysSpan_priv = False\<rparr>
                 (SetContextDir (DirBoolean True)))) Mark) = RString [0x200F]"
  using mark_context
    [where this = "\<lparr>contextDir_priv = Some LTR, alwaysSpan_priv = False\<rparr>"
       and contextDir = "DirBoolean True" and H = textHtml
       and B = "constBidi NEUTRAL False False"
       and that = "\<lparr>contextDir_priv = Some LTR, alwaysSpan_priv = False\<rparr>"]
    mark_context
    [where this = "\<lparr>contextDir_priv = None, alwaysSpan_priv = False\<rparr>"
       and contextDir = "DirNull" and H = textHtml
       and B = "constBidi NEUTRAL False False"
       and that = "\<lparr>contextDir_priv = None, alwaysSpan_priv = False\<rparr>"]
  by (simp add: LRM_def RLM_def)

text \<open>
  C8 (opposite directions). Two directions are opposite if and only if the product of
  their numeric values is negative, that is, one is LTR and the other RTL. NEUTRAL
  (0) and the unknown direction (\<open>null\<close>, whose number is 0) are opposite to nothing, and
  the test is symmetric.
\<close>

theorem opposite_directions:
  "(areDirectionalitiesOpposite_priv dir1 dir2 \<longleftrightarrow> Number dir1 * Number dir2 < 0)
   \<and> (areDirectionalitiesOpposite_priv dir1 dir2 \<longleftrightarrow>
        (dir1 = Some LTR \<and> dir2 = Some RTL) \<or> (dir1 = Some RTL \<and> dir2 = Some LTR))
   \<and> \<not> areDirectionalitiesOpposite_priv (Some NEUTRAL) dir2
   \<and> \<not> areDirectionalitiesOpposite_priv dir1 (Some NEUTRAL)
   \<and> \<not> areDirectionalitiesOpposite_priv None dir2
   \<and> \<not> areDirectionalitiesOpposite_priv dir1 None
   \<and> (areDirectionalitiesOpposite_priv dir1 dir2 \<longleftrightarrow>
        areDirectionalitiesOpposite_priv dir2 dir1)"
proof -
  have sym: "areDirectionalitiesOpposite_priv dir1 dir2 \<longleftrightarrow>
      areDirectionalitiesOpposite_priv dir2 dir1"
    by (simp add: areDirectionalitiesOpposite_priv_def mult.commute)
  have zero: "\<And>d. \<not> areDirectionalitiesOpposite_priv (Some NEUTRAL) d"
    "\<And>d. \<not> areDirectionalitiesOpposite_priv d (Some NEUTRAL)"
    "\<And>d. \<not> areDirectionalitiesOpposite_priv None d"
    "\<And>d. \<not> areDirectionalitiesOpposite_priv d None"
    by (simp_all add: areDirectionalitiesOpposite_priv_def)
  show ?thesis
    using sym zero opposite_iff [of dir1 dir2]
    by (simp add: areDirectionalitiesOpposite_priv_def)
qed

theorem opposite_directions_witness:
  "areDirectionalitiesOpposite_priv (Some LTR) (Some RTL) \<and>
   Number (Some LTR) * Number (Some RTL) = - 1 \<and>
   \<not> areDirectionalitiesOpposite_priv (Some LTR) (Some LTR) \<and>
   \<not> areDirectionalitiesOpposite_priv (Some RTL) None"
  using opposite_directions [of "Some LTR" "Some RTL"] opposite_directions [of "Some LTR" "Some LTR"]
    opposite_directions [of "Some RTL" None]
  by simp

subsection \<open>The state of the formatter\<close>

text \<open>
  C9 (formatting keeps the state). The body of every method other than the two setters,
  run on every input and from every state of the formatter, ends in the state it started
  from: \<open>contextDir_\<close> and \<open>alwaysSpan_\<close> are the same after the call as before. What
  the body returns and the state it leaves are those of \<open>call\<close>. The body of
  \<open>setContextDir\<close> assigns the context direction only, that of \<open>setAlwaysSpan\<close> the flag
  only.
\<close>

theorem formatting_keeps_state:
  "(\<not> is_setter m \<longrightarrow> snd (run_state (exec H B m) this) = this)
   \<and> run_state (exec H B m) this = call H B this m
   \<and> contextDir_priv (snd (run_state (exec H B (SetContextDir contextDir)) this)) =
       toDir contextDir True
   \<and> alwaysSpan_priv (snd (run_state (exec H B (SetContextDir contextDir)) this)) =
       alwaysSpan_priv this
   \<and> alwaysSpan_priv (snd (run_state (exec H B (SetAlwaysSpan alwaysSpan)) this)) = alwaysSpan
   \<and> contextDir_priv (snd (run_state (exec H B (SetAlwaysSpan alwaysSpan)) this)) =
       contextDir_priv this"
proof -
  have frame: "\<not> is_setter m \<Longrightarrow> snd (run_state (exec H B m) this) = this"
    by (cases m)
      (simp_all add: run_returning getContextDir_st_def getAlwaysSpan_st_def
         run_this_contextDir run_this_alwaysSpan run_estimateDirection run_dirAttrValue
         run_knownDirAttrValue run_dirAttr run_knownDirAttr run_spanWrapSafeHtml
         run_spanWrapSafeHtmlWithKnownDir run_unicodeWrap run_unicodeWrapWithKnownDir
         run_markAfter run_markAfterKnownDir run_mark run_startEdge run_endEdge)
  have setters:
    "run_state (exec H B (SetContextDir contextDir)) this =
       (RUndefined, this\<lparr>contextDir_priv := toDir contextDir True\<rparr>)"
    "run_state (exec H B (SetAlwaysSpan alwaysSpan)) this =
       (RUndefined, this\<lparr>alwaysSpan_priv := alwaysSpan\<rparr>)"
    by (simp_all add: run_returning run_setContextDir run_setAlwaysSpan setContextDir_def
          setAlwaysSpan_def)
  show ?thesis
    using frame setters run_exec [of H B m this] by simp
qed

text \<open>
  The body of \<open>unicodeWrap\<close> run on shalom in an LTR context, and that of
  \<open>setContextDir\<close> on -1.
\<close>

theorem formatting_keeps_state_witness:
  "\<not> is_setter (UnicodeWrap [0x05E9, 0x05DC, 0x05D5, 0x05DD] Undefined Undefined
       :: jsstring methodCall) \<and>
   run_state (exec textHtml (constBidi RTL True False)
       (UnicodeWrap [0x05E9, 0x05DC, 0x05D5, 0x05DD] Undefined Undefined))
     \<lparr>contextDir_priv = Some LTR, alwaysSpan_priv = False\<rparr> =
   (RString [0x202B, 0x05E9, 0x05DC, 0x05D5, 0x05DD, 0x202C, 0x200E],
    \<lparr>contextDir_priv = Some LTR, alwaysSpan_priv = False\<rparr>) \<and>
   run_state (exec textHtml (constBidi RTL True False) (SetContextDir (DirNumber (- 1))))
     \<lparr>contextDir_priv = Some LTR, alwaysSpan_priv = False\<rparr> =
   (RUndefined, \<lparr>contextDir_priv = Some RTL, alwaysSpan_priv = False\<rparr>)"
  using formatting_keeps_state
    [where m = "UnicodeWrap [0x05E9, 0x05DC, 0x05D5, 0x05DD] Undefined Undefined"
       and H = textHtml and B = "constBidi RTL True False"
       and this = "\<lparr>contextDir_priv = Some LTR, alwaysSpan_priv = False\<rparr>"
       and contextDir = "DirNumber (- 1)" and alwaysSpan = True]
  by (simp add: returning_def unicodeWrap_st_def unicodeWrapWithKnownDir_st_def
        unicodeWrapWithKnownDir_priv_st_def estimateDirection_st_def
        dirResetIfNeeded_priv_st_def areDirectionalitiesOpposite_priv_st_def
        this_contextDir_def default_true_def RLE_def PDF_def LRM_def constBidi_def
        setContextDir_st_def assign_contextDir_def State_Monad.update_def)

end
